theory Spec2Isabelle
  imports Complex_Main
begin

section \<open>Python values\<close>

text \<open>
  A Python \<open>str\<close> is a sequence of Unicode code points. Where the code counts or
  inspects code points (passwords, environment values) a string is a list of code points;
  where it only compares strings (emails, names, messages) it is a HOL \<open>string\<close>.
  \<open>str\<close> embeds an ASCII literal.
\<close>

type_synonym pystr = "nat list"

definition str :: "string \<Rightarrow> pystr" where
  "str s = map of_char s"

text \<open>
  \<open>str.isspace\<close> for one code point: the code points CPython's
  \<open>_PyUnicode_IsWhitespace\<close> accepts.
\<close>

definition py_isspace :: "nat \<Rightarrow> bool" where
  "py_isspace c =
     ((9 \<le> c \<and> c \<le> 13) \<or> (28 \<le> c \<and> c \<le> 32) \<or> c = 133 \<or> c = 160 \<or> c = 5760 \<or>
      (8192 \<le> c \<and> c \<le> 8202) \<or> c = 8232 \<or> c = 8233 \<or> c = 8239 \<or> c = 8287 \<or>
      c = 12288)"

text \<open>\<open>str.strip()\<close> with no argument: whitespace is dropped at both ends.\<close>

definition py_strip :: "pystr \<Rightarrow> pystr" where
  "py_strip s = rev (dropWhile py_isspace (rev (dropWhile py_isspace s)))"

text \<open>
  \<open>str.lower()\<close>. The letters \<open>A\<close> to \<open>Z\<close> are mapped to \<open>a\<close> to \<open>z\<close>.
  Code points beyond ASCII are left as they are: Unicode lower-casing sends none of them
  to a letter of an accepted word of \<open>get_bool\<close> (the only ones with an ASCII letter
  in their lower case are U+212A, which gives \<open>k\<close>, and U+0130, which gives \<open>i\<close>
  followed by U+0307), so membership in the accepted words is the same.
\<close>

definition py_lower :: "pystr \<Rightarrow> pystr" where
  "py_lower s = map (\<lambda>c. if 65 \<le> c \<and> c \<le> 90 then c + 32 else c) s"

section \<open>Configuration (app/core/config.py)\<close>

text \<open>The process environment read by \<open>os.getenv\<close>: a variable is absent or has a value.\<close>

type_synonym environ = "string \<rightharpoonup> pystr"

text \<open>The words \<open>_get_bool\<close> takes as true.\<close>

definition truthy :: "pystr set" where
  "truthy = {str ''1'', str ''true'', str ''yes'', str ''y'', str ''on''}"

text \<open>
  \<open>_get_bool(name, default)\<close>: the default when the variable is absent, otherwise
  whether the trimmed, lower-cased value is one of the accepted words.
\<close>

definition get_bool :: "environ \<Rightarrow> string \<Rightarrow> bool \<Rightarrow> bool" where
  "get_bool env name dflt =
     (case env name of
        None \<Rightarrow> dflt
      | Some raw \<Rightarrow> py_lower (py_strip raw) \<in> truthy)"

section \<open>Data model (app/models/models.py)\<close>

datatype UserRole = STUDENT | TEACHER

text \<open>A UTC time, in whole seconds since the epoch.\<close>

type_synonym datetime = int

text \<open>
  A Python \<open>float\<close>: a finite number, an infinity or NaN. The finite floats are taken
  from the reals (every finite float is one of them; the two zeros, which compare equal,
  are not told apart).
\<close>

datatype pyfloat = Finite real | PosInf | NegInf | NaN

text \<open>
  One record per table model. A field is named after its class and its attribute, since
  several classes have an \<open>id\<close>.
\<close>

record User =
  User_id :: int
  User_email :: string
  User_full_name :: string
  User_role :: UserRole
  User_hashed_password :: pystr

record Classroom =
  Classroom_id :: int
  Classroom_name :: string
  Classroom_description :: "string option"
  Classroom_teacher_id :: int

record ClassroomEnrollment =
  ClassroomEnrollment_classroom_id :: int
  ClassroomEnrollment_student_id :: int

record Lesson =
  Lesson_id :: int
  Lesson_classroom_id :: int
  Lesson_title :: string
  Lesson_description :: "string option"
  Lesson_scheduled_at :: "datetime option"

record Assignment =
  Assignment_id :: int
  Assignment_lesson_id :: int
  Assignment_title :: string
  Assignment_description :: "string option"
  Assignment_due_at :: "datetime option"
  Assignment_max_score :: pyfloat
  Assignment_is_published :: bool

record Submission =
  Submission_id :: int
  Submission_assignment_id :: int
  Submission_student_id :: int
  Submission_submitted_at :: datetime
  Submission_content :: "string option"
  Submission_file_path :: "string option"
  Submission_score :: "pyfloat option"
  Submission_feedback :: "string option"
  Submission_graded_at :: "datetime option"
  Submission_graded_by :: "int option"

section \<open>The database behind a session\<close>

text \<open>
  The committed state a request's session reads and writes: each table is the list of its
  rows, in the order the store returns them.
\<close>

record database =
  users :: "User list"
  classrooms :: "Classroom list"
  enrollments :: "ClassroomEnrollment list"
  lessons :: "Lesson list"
  assignments :: "Assignment list"
  submissions :: "Submission list"

text \<open>\<open>session.get(Model, primary_key)\<close>: the row with that key, or \<open>None\<close>.\<close>

definition session_get_User :: "database \<Rightarrow> int \<Rightarrow> User option" where
  "session_get_User db k = find (\<lambda>r. User_id r = k) (users db)"

definition session_get_Classroom :: "database \<Rightarrow> int \<Rightarrow> Classroom option" where
  "session_get_Classroom db k = find (\<lambda>r. Classroom_id r = k) (classrooms db)"

definition session_get_Lesson :: "database \<Rightarrow> int \<Rightarrow> Lesson option" where
  "session_get_Lesson db k = find (\<lambda>r. Lesson_id r = k) (lessons db)"

definition session_get_Assignment :: "database \<Rightarrow> int \<Rightarrow> Assignment option" where
  "session_get_Assignment db k = find (\<lambda>r. Assignment_id r = k) (assignments db)"

definition session_get_Submission :: "database \<Rightarrow> int \<Rightarrow> Submission option" where
  "session_get_Submission db k = find (\<lambda>r. Submission_id r = k) (submissions db)"

definition session_get_ClassroomEnrollment ::
  "database \<Rightarrow> int \<Rightarrow> int \<Rightarrow> ClassroomEnrollment option" where
  "session_get_ClassroomEnrollment db classroom_id student_id =
     find (\<lambda>r. ClassroomEnrollment_classroom_id r = classroom_id \<and>
                ClassroomEnrollment_student_id r = student_id) (enrollments db)"

text \<open>
  A float column of the store, a parameter of the model: for the float written to the
  column it gives what is read back, \<open>None\<close> for NULL. How precise the column is and
  what it makes of an infinity or of NaN is the database engine's business.
\<close>

type_synonym float_column = "pyfloat \<Rightarrow> pyfloat option"

text \<open>A column that turns NaN into NULL and keeps every other float.\<close>

definition nan_as_null :: float_column where
  "nan_as_null v = (if v = NaN then None else Some v)"

text \<open>
  The row that \<open>session.commit()\<close> writes for a changed \<open>Submission\<close> object and
  \<open>session.refresh\<close> reads back: a score that was assigned has gone through the float
  column, every other attribute is the object's.
\<close>

definition stored_Submission :: "float_column \<Rightarrow> bool \<Rightarrow> Submission \<Rightarrow> Submission" where
  "stored_Submission col score_assigned submission =
     (if score_assigned
      then submission\<lparr>Submission_score :=
             (case Submission_score submission of None \<Rightarrow> None | Some v \<Rightarrow> col v)\<rparr>
      else submission)"

text \<open>The store updates the row whose primary key is that of the written row.\<close>

definition commit_Submission :: "database \<Rightarrow> Submission \<Rightarrow> database" where
  "commit_Submission db submission =
     db\<lparr>submissions :=
          map (\<lambda>r. if Submission_id r = Submission_id submission then submission else r)
            (submissions db)\<rparr>"

section \<open>Errors and request dependencies (app/api/deps.py)\<close>

datatype HTTPException = HTTPException (status_code: nat) (detail: string)

abbreviation HTTP_400_BAD_REQUEST :: nat where "HTTP_400_BAD_REQUEST \<equiv> 400"
abbreviation HTTP_401_UNAUTHORIZED :: nat where "HTTP_401_UNAUTHORIZED \<equiv> 401"
abbreviation HTTP_403_FORBIDDEN :: nat where "HTTP_403_FORBIDDEN \<equiv> 403"
abbreviation HTTP_404_NOT_FOUND :: nat where "HTTP_404_NOT_FOUND \<equiv> 404"
abbreviation HTTP_422_UNPROCESSABLE_ENTITY :: nat where "HTTP_422_UNPROCESSABLE_ENTITY \<equiv> 422"
abbreviation HTTP_500_INTERNAL_SERVER_ERROR :: nat where "HTTP_500_INTERNAL_SERVER_ERROR \<equiv> 500"

text \<open>What the server answers when a handler lets an exception escape.\<close>

definition internal_server_error :: HTTPException where
  "internal_server_error = HTTPException HTTP_500_INTERNAL_SERVER_ERROR ''Internal Server Error''"

text \<open>
  \<open>require_teacher\<close>: the dependency of every teacher-only handler. Its argument is the
  user \<open>get_current_user\<close> resolved from the bearer token.
\<close>

definition require_teacher :: "User \<Rightarrow> HTTPException + User" where
  "require_teacher current_user =
     (if User_role current_user \<noteq> TEACHER
      then Inl (HTTPException HTTP_403_FORBIDDEN ''Teacher access required'')
      else Inr current_user)"

section \<open>Assignments (app/api/assignments.py)\<close>

definition ensure_lesson_owned_by_teacher :: "database \<Rightarrow> int \<Rightarrow> int \<Rightarrow> HTTPException + Lesson" where
  "ensure_lesson_owned_by_teacher db lesson_id teacher_id =
     (case session_get_Lesson db lesson_id of
        None \<Rightarrow> Inl (HTTPException HTTP_404_NOT_FOUND ''Lesson not found'')
      | Some lesson \<Rightarrow>
          (case session_get_Classroom db (Lesson_classroom_id lesson) of
             None \<Rightarrow> Inl (HTTPException HTTP_403_FORBIDDEN
                        ''Not authorized to manage assignments for this lesson'')
           | Some classroom \<Rightarrow>
               if Classroom_teacher_id classroom \<noteq> teacher_id
               then Inl (HTTPException HTTP_403_FORBIDDEN
                      ''Not authorized to manage assignments for this lesson'')
               else Inr lesson))"

text \<open>
  \<open>get_assignment\<close>, with its \<open>require_teacher\<close> dependency run first. The response
  model \<open>AssignmentRead\<close> has the fields of the row.
\<close>

definition get_assignment :: "database \<Rightarrow> User \<Rightarrow> int \<Rightarrow> HTTPException + Assignment" where
  "get_assignment db current_user assignment_id =
     (case require_teacher current_user of
        Inl e \<Rightarrow> Inl e
      | Inr current_teacher \<Rightarrow>
          (case session_get_Assignment db assignment_id of
             None \<Rightarrow> Inl (HTTPException HTTP_404_NOT_FOUND ''Assignment not found'')
           | Some assignment \<Rightarrow>
               (case ensure_lesson_owned_by_teacher db (Assignment_lesson_id assignment)
                       (User_id current_teacher) of
                  Inl e \<Rightarrow> Inl e
                | Inr lesson \<Rightarrow> Inr assignment)))"

section \<open>Grading (app/api/grading.py)\<close>

text \<open>
  The request body \<open>GradeUpdate\<close>: both fields are optional and not validated further,
  so the score can be any float, NaN and the infinities included.
\<close>

record GradeUpdate =
  GradeUpdate_score :: "pyfloat option"
  GradeUpdate_feedback :: "string option"

text \<open>
  \<open>grade_submission\<close>, with its \<open>require_teacher\<close> dependency run first. \<open>col\<close> is
  the float column of the score and \<open>now\<close> is what \<open>datetime.utcnow()\<close> returns. A
  missing lesson leaves \<open>classroom\<close> at \<open>None\<close>, so it is answered like a missing
  classroom. On success the changed object is committed and refreshed, and the row read
  back is returned (\<open>SubmissionRead\<close> has the fields of the row) together with the new
  database.
\<close>

definition grade_submission ::
  "float_column \<Rightarrow> database \<Rightarrow> datetime \<Rightarrow> User \<Rightarrow> int \<Rightarrow> GradeUpdate \<Rightarrow>
     HTTPException + Submission \<times> database" where
  "grade_submission col db now current_user submission_id payload =
     (case require_teacher current_user of
        Inl e \<Rightarrow> Inl e
      | Inr current_teacher \<Rightarrow>
     (case session_get_Submission db submission_id of
        None \<Rightarrow> Inl (HTTPException HTTP_404_NOT_FOUND ''Submission not found'')
      | Some submission \<Rightarrow>
     (case session_get_Assignment db (Submission_assignment_id submission) of
        None \<Rightarrow> Inl (HTTPException HTTP_404_NOT_FOUND ''Assignment not found'')
      | Some assignment \<Rightarrow>
     (let lesson = session_get_Lesson db (Assignment_lesson_id assignment);
          classroom = (case lesson of
                         Some l \<Rightarrow> session_get_Classroom db (Lesson_classroom_id l)
                       | None \<Rightarrow> None)
      in if (case classroom of
               None \<Rightarrow> True
             | Some c \<Rightarrow> Classroom_teacher_id c \<noteq> User_id current_teacher)
         then Inl (HTTPException HTTP_403_FORBIDDEN ''Not authorized to grade this submission'')
         else
           (let s1 = (case GradeUpdate_score payload of
                        Some v \<Rightarrow> submission\<lparr>Submission_score := Some v\<rparr>
                      | None \<Rightarrow> submission);
                s2 = (case GradeUpdate_feedback payload of
                        Some v \<Rightarrow> s1\<lparr>Submission_feedback := Some v\<rparr>
                      | None \<Rightarrow> s1);
                s3 = s2\<lparr>Submission_graded_at := Some now\<rparr>;
                s4 = s3\<lparr>Submission_graded_by := Some (User_id current_teacher)\<rparr>;
                refreshed = stored_Submission col (GradeUpdate_score payload \<noteq> None) s4
            in Inr (refreshed, commit_Submission db refreshed))))))"

text \<open>\<open>update_grade\<close> passes its arguments on to \<open>grade_submission\<close>.\<close>

definition update_grade ::
  "float_column \<Rightarrow> database \<Rightarrow> datetime \<Rightarrow> User \<Rightarrow> int \<Rightarrow> GradeUpdate \<Rightarrow>
     HTTPException + Submission \<times> database" where
  "update_grade col db now current_user submission_id payload =
     grade_submission col db now current_user submission_id payload"

section \<open>Classrooms (app/api/classrooms.py)\<close>

text \<open>
  \<open>enroll_student\<close>, with its \<open>require_teacher\<close> dependency run first;
  \<open>student_id\<close> is the field of the \<open>EnrollmentCreate\<close> body. The handler returns
  nothing on success (204), so the result is the database it leaves.
\<close>

definition enroll_student :: "database \<Rightarrow> User \<Rightarrow> int \<Rightarrow> int \<Rightarrow> HTTPException + database" where
  "enroll_student db current_user classroom_id student_id =
     (case require_teacher current_user of
        Inl e \<Rightarrow> Inl e
      | Inr current_teacher \<Rightarrow>
     (if (case session_get_Classroom db classroom_id of
            None \<Rightarrow> True
          | Some classroom \<Rightarrow> Classroom_teacher_id classroom \<noteq> User_id current_teacher)
      then Inl (HTTPException HTTP_404_NOT_FOUND ''Classroom not found'')
      else if (case session_get_User db student_id of
                 None \<Rightarrow> True
               | Some student \<Rightarrow> User_role student \<noteq> STUDENT)
      then Inl (HTTPException HTTP_400_BAD_REQUEST ''Invalid student_id'')
      else
        (case session_get_ClassroomEnrollment db classroom_id student_id of
           Some existing \<Rightarrow> Inr db
         | None \<Rightarrow>
             Inr (db\<lparr>enrollments := enrollments db @
                    [\<lparr>ClassroomEnrollment_classroom_id = classroom_id,
                      ClassroomEnrollment_student_id = student_id\<rparr>]\<rparr>))))"

section \<open>Submissions (app/api/submissions.py)\<close>

text \<open>
  \<open>list_submissions_for_assignment\<close>; \<open>current_user\<close> is the user
  \<open>get_current_user\<close> resolved. The two \<open>select\<close> statements are filters of the
  submissions table.
\<close>

definition list_submissions_for_assignment ::
  "database \<Rightarrow> User \<Rightarrow> int \<Rightarrow> HTTPException + Submission list" where
  "list_submissions_for_assignment db current_user assignment_id =
     (case session_get_Assignment db assignment_id of
        None \<Rightarrow> Inl (HTTPException HTTP_404_NOT_FOUND ''Assignment not found'')
      | Some assignment \<Rightarrow>
          if User_role current_user = TEACHER then
            (case session_get_Lesson db (Assignment_lesson_id assignment) of
               None \<Rightarrow> Inl (HTTPException HTTP_404_NOT_FOUND ''Lesson not found'')
             | Some lesson \<Rightarrow>
                 if (case session_get_Classroom db (Lesson_classroom_id lesson) of
                       None \<Rightarrow> True
                     | Some classroom \<Rightarrow> Classroom_teacher_id classroom \<noteq> User_id current_user)
                 then Inl (HTTPException HTTP_403_FORBIDDEN
                        ''Not authorized to view submissions for this assignment'')
                 else Inr (filter (\<lambda>r. Submission_assignment_id r = assignment_id)
                             (submissions db)))
          else
            Inr (filter (\<lambda>r. Submission_assignment_id r = assignment_id \<and>
                              Submission_student_id r = User_id current_user)
                   (submissions db)))"

section \<open>Security primitives (app/core/security.py)\<close>

text \<open>The fields of \<open>settings\<close> that the security primitives read.\<close>

record Settings =
  SECRET_KEY :: string
  ALGORITHM :: string
  ACCESS_TOKEN_EXPIRE_MINUTES :: int

text \<open>The settings of a process started with none of the variables set.\<close>

definition default_settings :: Settings where
  "default_settings =
     \<lparr>SECRET_KEY = ''change-me-in-production'', ALGORITHM = ''HS256'',
      ACCESS_TOKEN_EXPIRE_MINUTES = 60\<rparr>"

subsection \<open>Passwords\<close>

text \<open>
  \<open>str.encode("utf-8")\<close>: one to four bytes per code point; a surrogate code point
  cannot be encoded and raises \<open>UnicodeEncodeError\<close>, here \<open>None\<close>.
\<close>

definition utf8_encode_cp :: "nat \<Rightarrow> nat list option" where
  "utf8_encode_cp c =
     (if c < 128 then Some [c]
      else if c < 2048 then Some [192 + c div 64, 128 + c mod 64]
      else if 55296 \<le> c \<and> c \<le> 57343 then None
      else if c < 65536 then Some [224 + c div 4096, 128 + (c div 64) mod 64, 128 + c mod 64]
      else Some [240 + c div 262144, 128 + (c div 4096) mod 64, 128 + (c div 64) mod 64,
                 128 + c mod 64])"

fun utf8_encode :: "pystr \<Rightarrow> nat list option" where
  "utf8_encode [] = Some []"
| "utf8_encode (c # cs) =
     (case utf8_encode_cp c of
        None \<Rightarrow> None
      | Some bs \<Rightarrow> (case utf8_encode cs of None \<Rightarrow> None | Some rest \<Rightarrow> Some (bs @ rest)))"

text \<open>
  The two libraries the password functions call, as parameters: passlib's
  \<open>pwd_context\<close> with the scheme \<open>bcrypt_sha256\<close> (\<open>hash\<close> draws a random salt,
  here its first argument) and \<open>hashlib.sha256(bytes).hexdigest()\<close>. Both calls of
  \<open>pwd_context\<close> can raise, which is \<open>None\<close>: on a secret of more than 4096
  characters or one that cannot be encoded, and \<open>verify\<close> also on a stored string that
  is no hash of the scheme.
\<close>

record crypt_lib =
  pwd_context_hash :: "pystr \<Rightarrow> pystr \<Rightarrow> pystr option"
  pwd_context_verify :: "pystr \<Rightarrow> pystr \<Rightarrow> bool option"
  sha256_hexdigest :: "nat list \<Rightarrow> pystr"

text \<open>The secrets \<open>pwd_context\<close> takes without raising.\<close>

definition accepted_secret :: "pystr \<Rightarrow> bool" where
  "accepted_secret secret \<longleftrightarrow> length secret \<le> 4096 \<and> utf8_encode secret \<noteq> None"

text \<open>
  What these libraries guarantee, collisions apart: an accepted secret is hashed; against
  a hash made from a secret, an accepted secret verifies exactly when it is that secret,
  and any other secret raises; a SHA-256 hex digest is 64 ASCII characters.
\<close>

definition ideal_lib :: "crypt_lib \<Rightarrow> bool" where
  "ideal_lib lib \<longleftrightarrow>
     (\<forall>salt q. accepted_secret q \<longrightarrow> pwd_context_hash lib salt q \<noteq> None) \<and>
     (\<forall>salt p q h. pwd_context_hash lib salt q = Some h \<longrightarrow>
        pwd_context_verify lib p h = (if accepted_secret p then Some (p = q) else None)) \<and>
     (\<forall>bs. length (sha256_hexdigest lib bs) = 64 \<and>
           (\<forall>c \<in> set (sha256_hexdigest lib bs). c < 128))"

text \<open>
  A stand-in library for concrete runs: the hash of a secret is the secret behind a
  dollar sign, a stored string without the dollar sign is no hash, and every digest is 64
  zeros.
\<close>

definition plain_lib :: crypt_lib where
  "plain_lib =
     \<lparr>pwd_context_hash =
        (\<lambda>salt secret. if accepted_secret secret then Some (36 # secret) else None),
      pwd_context_verify =
        (\<lambda>secret hashed.
           case hashed of
             [] \<Rightarrow> None
           | c # rest \<Rightarrow> if accepted_secret secret \<and> c = 36 then Some (secret = rest) else None),
      sha256_hexdigest = (\<lambda>bs. replicate 64 48)\<rparr>"

text \<open>\<open>verify_password\<close>: the library's answer, or \<open>None\<close> when the library raises.\<close>

definition verify_password :: "crypt_lib \<Rightarrow> pystr \<Rightarrow> pystr \<Rightarrow> bool option" where
  "verify_password lib plain_password hashed_password =
     pwd_context_verify lib plain_password hashed_password"

text \<open>
  \<open>get_password_hash\<close>: an input of more than 72 UTF-8 bytes is replaced by the hex
  digest of its bytes before it is hashed. \<open>None\<close> when the encoding or the library
  raises.
\<close>

definition get_password_hash :: "crypt_lib \<Rightarrow> pystr \<Rightarrow> pystr \<Rightarrow> pystr option" where
  "get_password_hash lib salt password =
     (case utf8_encode password of
        None \<Rightarrow> None
      | Some bs \<Rightarrow>
          pwd_context_hash lib salt
            (if 72 < length bs then sha256_hexdigest lib bs else password))"

subsection \<open>Tokens\<close>

text \<open>
  The JWT library (python-jose), idealised: a token carries its algorithm, its claims and
  the key that signed it, and nobody can make one without the key. Decoding checks the
  key and the algorithm, then the \<open>exp\<close> claim against the clock: a token is expired
  when \<open>exp\<close> is before the current second. An \<open>exp\<close> that is not a number is
  rejected. All three failures are \<open>JWTError\<close>s.
\<close>

datatype claim = ClaimStr string | ClaimInt int

type_synonym claims = "string \<rightharpoonup> claim"

datatype jwt = JWT (jwt_alg: string) (jwt_claims: claims) (jwt_key: string)

datatype JWTError = InvalidSignature | ExpiredSignatureError | JWTClaimsError

definition jwt_encode :: "claims \<Rightarrow> string \<Rightarrow> string \<Rightarrow> jwt" where
  "jwt_encode to_encode key algorithm = JWT algorithm to_encode key"

definition jwt_decode :: "datetime \<Rightarrow> jwt \<Rightarrow> string \<Rightarrow> string list \<Rightarrow> JWTError + claims" where
  "jwt_decode now token key algorithms =
     (if jwt_key token = key \<and> jwt_alg token \<in> set algorithms
      then (case jwt_claims token ''exp'' of
              None \<Rightarrow> Inr (jwt_claims token)
            | Some (ClaimStr s) \<Rightarrow> Inl JWTClaimsError
            | Some (ClaimInt expiry) \<Rightarrow>
                if expiry < now then Inl ExpiredSignatureError else Inr (jwt_claims token))
      else Inl InvalidSignature)"

text \<open>
  \<open>create_access_token\<close>; \<open>now\<close> is \<open>datetime.now(timezone.utc)\<close>.
  \<open>expires_minutes or settings.ACCESS_TOKEN_EXPIRE_MINUTES\<close> takes the setting when
  \<open>expires_minutes\<close> is \<open>None\<close> and also when it is \<open>0\<close>, Python's other false
  integer. Time is unbounded here: the overflow of \<open>timedelta\<close> and \<open>datetime\<close> at
  overrides of many thousand years is left out.
\<close>

definition create_access_token :: "Settings \<Rightarrow> datetime \<Rightarrow> claims \<Rightarrow> int option \<Rightarrow> jwt" where
  "create_access_token settings now data expires_minutes =
     (let to_encode = data;
          expire_delta = (case expires_minutes of
                            None \<Rightarrow> ACCESS_TOKEN_EXPIRE_MINUTES settings
                          | Some m \<Rightarrow> if m = 0 then ACCESS_TOKEN_EXPIRE_MINUTES settings else m);
          expire = now + 60 * expire_delta;
          to_encode = to_encode(''exp'' \<mapsto> ClaimInt expire)
      in jwt_encode to_encode (SECRET_KEY settings) (ALGORITHM settings))"

definition decode_access_token :: "Settings \<Rightarrow> datetime \<Rightarrow> jwt \<Rightarrow> JWTError + claims" where
  "decode_access_token settings now token =
     jwt_decode now token (SECRET_KEY settings) [ALGORITHM settings]"

section \<open>Auth (app/api/auth.py, app/schemas/schemas.py)\<close>

record UserCreate =
  UserCreate_email :: string
  UserCreate_full_name :: string
  UserCreate_password :: pystr
  UserCreate_role :: UserRole

record UserRead =
  UserRead_id :: int
  UserRead_email :: string
  UserRead_full_name :: string
  UserRead_role :: UserRole

record LoginRequest =
  LoginRequest_email :: string
  LoginRequest_password :: pystr

record Token =
  Token_access_token :: jwt
  Token_token_type :: string
  Token_user_id :: int
  Token_role :: UserRole

text \<open>\<open>Field(min_length=8, max_length=128)\<close> on a password: a count of code points.\<close>

definition password_length_ok :: "pystr \<Rightarrow> bool" where
  "password_length_ok password \<longleftrightarrow> 8 \<le> length password \<and> length password \<le> 128"

text \<open>\<open>UserRole.value\<close> and \<open>str\<close> of an integer, as they enter the token's claims.\<close>

definition UserRole_value :: "UserRole \<Rightarrow> string" where
  "UserRole_value r = (case r of STUDENT \<Rightarrow> ''STUDENT'' | TEACHER \<Rightarrow> ''TEACHER'')"

fun str_of_nat :: "nat \<Rightarrow> string" where
  "str_of_nat n =
     (if n < 10 then [char_of (48 + n)]
      else str_of_nat (n div 10) @ [char_of (48 + n mod 10)])"

declare str_of_nat.simps [simp del]

definition str_of_int :: "int \<Rightarrow> string" where
  "str_of_int i = (if i < 0 then CHR ''-'' # str_of_nat (nat (- i)) else str_of_nat (nat i))"

text \<open>
  \<open>register_user\<close>, for a body that passed validation. \<open>salt\<close> is the salt the
  hashing draws and \<open>new_id\<close> the primary key the store assigns to the inserted row. An
  exception inside \<open>get_password_hash\<close> is not caught and ends the request with 500.
\<close>

definition register_user ::
  "crypt_lib \<Rightarrow> pystr \<Rightarrow> int \<Rightarrow> database \<Rightarrow> UserCreate \<Rightarrow> HTTPException + UserRead \<times> database" where
  "register_user lib salt new_id db payload =
     (case find (\<lambda>r. User_email r = UserCreate_email payload) (users db) of
        Some existing \<Rightarrow> Inl (HTTPException HTTP_400_BAD_REQUEST ''Email is already registered'')
      | None \<Rightarrow>
          (case get_password_hash lib salt (UserCreate_password payload) of
             None \<Rightarrow> Inl internal_server_error
           | Some hashed \<Rightarrow>
               (let user = \<lparr>User_id = new_id, User_email = UserCreate_email payload,
                             User_full_name = UserCreate_full_name payload,
                             User_role = UserCreate_role payload,
                             User_hashed_password = hashed\<rparr>
                in Inr (\<lparr>UserRead_id = User_id user, UserRead_email = User_email user,
                          UserRead_full_name = User_full_name user,
                          UserRead_role = User_role user\<rparr>,
                        db\<lparr>users := users db @ [user]\<rparr>))))"

text \<open>
  \<open>login\<close>: \<open>username\<close> and \<open>password\<close> are the fields of the
  \<open>OAuth2PasswordRequestForm\<close>; \<open>now\<close> is the clock \<open>create_access_token\<close> reads.
  An exception inside \<open>verify_password\<close> is not caught and ends the request with 500.
\<close>

definition login ::
  "crypt_lib \<Rightarrow> Settings \<Rightarrow> datetime \<Rightarrow> database \<Rightarrow> string \<Rightarrow> pystr \<Rightarrow> HTTPException + Token" where
  "login lib settings now db username password =
     (case find (\<lambda>r. User_email r = username) (users db) of
        None \<Rightarrow> Inl (HTTPException HTTP_401_UNAUTHORIZED ''Incorrect username or password'')
      | Some user \<Rightarrow>
          (case verify_password lib password (User_hashed_password user) of
             None \<Rightarrow> Inl internal_server_error
           | Some verified \<Rightarrow>
               if \<not> verified
               then Inl (HTTPException HTTP_401_UNAUTHORIZED ''Incorrect username or password'')
               else
                 (let access_token = create_access_token settings now
                        [''sub'' \<mapsto> ClaimStr (str_of_int (User_id user)),
                         ''role'' \<mapsto> ClaimStr (UserRole_value (User_role user))] None
                  in Inr \<lparr>Token_access_token = access_token, Token_token_type = ''bearer'',
                          Token_user_id = User_id user, Token_role = User_role user\<rparr>)))"

text \<open>\<open>login_json\<close>, for a body that passed the validation of \<open>LoginRequest\<close>.\<close>

definition login_json ::
  "crypt_lib \<Rightarrow> Settings \<Rightarrow> datetime \<Rightarrow> database \<Rightarrow> LoginRequest \<Rightarrow> HTTPException + Token" where
  "login_json lib settings now db payload =
     (case find (\<lambda>r. User_email r = LoginRequest_email payload) (users db) of
        None \<Rightarrow> Inl (HTTPException HTTP_401_UNAUTHORIZED ''Incorrect email or password'')
      | Some user \<Rightarrow>
          (case verify_password lib (LoginRequest_password payload)
                  (User_hashed_password user) of
             None \<Rightarrow> Inl internal_server_error
           | Some verified \<Rightarrow>
               if \<not> verified
               then Inl (HTTPException HTTP_401_UNAUTHORIZED ''Incorrect email or password'')
               else
                 (let access_token = create_access_token settings now
                        [''sub'' \<mapsto> ClaimStr (str_of_int (User_id user)),
                         ''role'' \<mapsto> ClaimStr (UserRole_value (User_role user))] None
                  in Inr \<lparr>Token_access_token = access_token, Token_token_type = ''bearer'',
                          Token_user_id = User_id user, Token_role = User_role user\<rparr>)))"

text \<open>
  The validation of a \<open>LoginRequest\<close> body, which the framework runs before
  \<open>login_json\<close> and answers with 422 when it fails. \<open>email_str\<close> is the check behind
  \<open>EmailStr\<close> (the email-validator library), a parameter: \<open>None\<close> for a rejected
  address, otherwise the address in normal form.
\<close>

definition validate_LoginRequest ::
  "(string \<Rightarrow> string option) \<Rightarrow> string \<Rightarrow> pystr \<Rightarrow> HTTPException + LoginRequest" where
  "validate_LoginRequest email_str email password =
     (case email_str email of
        None \<Rightarrow> Inl (HTTPException HTTP_422_UNPROCESSABLE_ENTITY ''Unprocessable Entity'')
      | Some normalized \<Rightarrow>
          if password_length_ok password
          then Inr \<lparr>LoginRequest_email = normalized, LoginRequest_password = password\<rparr>
          else Inl (HTTPException HTTP_422_UNPROCESSABLE_ENTITY ''Unprocessable Entity''))"

text \<open>The route \<open>POST /auth/login/json\<close>: validation, then the handler.\<close>

definition post_login_json ::
  "(string \<Rightarrow> string option) \<Rightarrow> crypt_lib \<Rightarrow> Settings \<Rightarrow> datetime \<Rightarrow> database \<Rightarrow> string \<Rightarrow> pystr \<Rightarrow>
     HTTPException + Token" where
  "post_login_json email_str lib settings now db email password =
     (case validate_LoginRequest email_str email password of
        Inl e \<Rightarrow> Inl e
      | Inr payload \<Rightarrow> login_json lib settings now db payload)"

section \<open>A small school, for concrete runs\<close>

text \<open>
  Two teachers (1 and 2) and two students (3 and 4); the stored hash of teacher 1 is what
  \<open>plain_lib\<close> makes of the password "correct horse", and the others have an empty
  string where the hash should be. Teacher 1 owns classroom 10 with
  lesson 20 and assignment 30, for which both students have a submission (40 and 41).
  Assignment 31 points at a lesson that does not exist and has submission 42; assignment 32
  is under lesson 21, whose classroom does not exist, and has submission 43.
\<close>

definition alice :: User where
  "alice = \<lparr>User_id = 1, User_email = ''alice@school.org'', User_full_name = ''Alice'',
            User_role = TEACHER, User_hashed_password = 36 # str ''correct horse''\<rparr>"

definition bob :: User where
  "bob = \<lparr>User_id = 2, User_email = ''bob@school.org'', User_full_name = ''Bob'',
          User_role = TEACHER, User_hashed_password = []\<rparr>"

definition carol :: User where
  "carol = \<lparr>User_id = 3, User_email = ''carol@school.org'', User_full_name = ''Carol'',
            User_role = STUDENT, User_hashed_password = []\<rparr>"

definition dave :: User where
  "dave = \<lparr>User_id = 4, User_email = ''dave@school.org'', User_full_name = ''Dave'',
           User_role = STUDENT, User_hashed_password = []\<rparr>"

definition submission_of :: "int \<Rightarrow> int \<Rightarrow> int \<Rightarrow> Submission" where
  "submission_of k assignment_id student_id =
     \<lparr>Submission_id = k, Submission_assignment_id = assignment_id,
      Submission_student_id = student_id, Submission_submitted_at = 1000,
      Submission_content = Some ''answer'', Submission_file_path = None,
      Submission_score = None, Submission_feedback = None,
      Submission_graded_at = None, Submission_graded_by = None\<rparr>"

definition assignment_of :: "int \<Rightarrow> int \<Rightarrow> Assignment" where
  "assignment_of k lesson_id =
     \<lparr>Assignment_id = k, Assignment_lesson_id = lesson_id, Assignment_title = ''Essay'',
      Assignment_description = None, Assignment_due_at = None,
      Assignment_max_score = Finite 100, Assignment_is_published = True\<rparr>"

definition lesson_of :: "int \<Rightarrow> int \<Rightarrow> Lesson" where
  "lesson_of k classroom_id =
     \<lparr>Lesson_id = k, Lesson_classroom_id = classroom_id, Lesson_title = ''Week 1'',
      Lesson_description = None, Lesson_scheduled_at = None\<rparr>"

definition school :: database where
  "school =
     \<lparr>users = [alice, bob, carol, dave],
      classrooms = [\<lparr>Classroom_id = 10, Classroom_name = ''History'',
                      Classroom_description = None, Classroom_teacher_id = 1\<rparr>],
      enrollments = [],
      lessons = [lesson_of 20 10, lesson_of 21 99],
      assignments = [assignment_of 30 20, assignment_of 31 77, assignment_of 32 21],
      submissions = [submission_of 40 30 3, submission_of 41 30 4, submission_of 42 31 3,
                     submission_of 43 32 3]\<rparr>"

text \<open>The same school after submission 40 was graded once, by teacher 1.\<close>

definition school_graded :: database where
  "school_graded =
     school\<lparr>submissions :=
       [(submission_of 40 30 3)\<lparr>Submission_score := Some (Finite 70),
           Submission_feedback := Some ''good'', Submission_graded_at := Some 2000,
           Submission_graded_by := Some 1\<rparr>,
        submission_of 41 30 4, submission_of 42 31 3, submission_of 43 32 3]\<rparr>"

section \<open>Properties of the configuration loader\<close>

lemma py_strip_padding:
  assumes ws1: "\<forall>c \<in> set ws1. py_isspace c"
    and ws2: "\<forall>c \<in> set ws2. py_isspace c"
    and w: "w \<noteq> []" "\<not> py_isspace (hd w)" "\<not> py_isspace (last w)"
  shows "py_strip (ws1 @ w @ ws2) = w"
proof -
  have front: "dropWhile py_isspace (ws1 @ w @ ws2) = w @ ws2"
    using ws1 w by (cases w) (simp_all add: dropWhile_append3)
  have "dropWhile py_isspace (rev ws2 @ rev w) = rev w"
  proof -
    from w obtain x xs where rw: "rev w = x # xs" and x: "x = last w"
      by (cases "rev w") (auto simp: hd_rev [symmetric])
    have "\<forall>c \<in> set (rev ws2). py_isspace c" using ws2 by simp
    then have "dropWhile py_isspace (rev ws2 @ x # xs) = x # xs"
      using w x by (simp add: dropWhile_append3)
    then show ?thesis by (simp add: rw)
  qed
  then show ?thesis by (simp add: py_strip_def front)
qed

lemma py_strip_all_space:
  assumes "\<forall>c \<in> set ws. py_isspace c"
  shows "py_strip ws = []"
proof -
  from assms have d: "dropWhile py_isspace ws = []"
    by simp
  show ?thesis unfolding py_strip_def d by simp
qed

text \<open>
  C9 (as the code has it): an absent variable gives the default. A present value gives
  true exactly when its trimmed, lower-cased form is one of "1", "true", "yes", "y", "on",
  and false otherwise, whatever the default is; padding with whitespace and the case of
  ASCII letters do not matter.
\<close>

theorem get_bool_present_ignores_default:
  "(env name = None \<longrightarrow> get_bool env name dflt = dflt) \<and>
   (\<forall>raw. env name = Some raw \<longrightarrow>
      get_bool env name dflt = (py_lower (py_strip raw) \<in> truthy) \<and>
      get_bool env name dflt = get_bool env name (\<not> dflt)) \<and>
   (\<forall>ws1 w ws2. env name = Some (ws1 @ w @ ws2) \<and> (\<forall>c \<in> set (ws1 @ ws2). py_isspace c) \<and>
      w \<noteq> [] \<and> \<not> py_isspace (hd w) \<and> \<not> py_isspace (last w) \<longrightarrow>
      get_bool env name dflt = (py_lower w \<in> truthy))"
proof (intro conjI allI impI)
  fix ws1 w ws2
  assume a: "env name = Some (ws1 @ w @ ws2) \<and> (\<forall>c \<in> set (ws1 @ ws2). py_isspace c) \<and>
      w \<noteq> [] \<and> \<not> py_isspace (hd w) \<and> \<not> py_isspace (last w)"
  then have "py_strip (ws1 @ w @ ws2) = w"
    by (intro py_strip_padding) auto
  with a show "get_bool env name dflt = (py_lower w \<in> truthy)"
    by (simp add: get_bool_def)
qed (simp_all add: get_bool_def)

theorem get_bool_present_ignores_default_witness:
  "get_bool [''DEBUG'' \<mapsto> str '' TRUE ''] ''DEBUG'' False = True \<and>
   get_bool [''DEBUG'' \<mapsto> str ''false''] ''DEBUG'' True = False \<and>
   get_bool Map.empty ''DEBUG'' True = True"
proof -
  have t: "py_lower (str ''TRUE'') \<in> truthy"
    by (simp add: py_lower_def str_def truthy_def)
  have f: "py_lower (py_strip (str ''false'')) \<notin> truthy"
    by (simp add: py_lower_def py_strip_def py_isspace_def str_def truthy_def)
  have "get_bool [''DEBUG'' \<mapsto> str '' TRUE ''] ''DEBUG'' False = (py_lower (str ''TRUE'') \<in> truthy)"
    using get_bool_present_ignores_default
      [of "[''DEBUG'' \<mapsto> str '' TRUE '']" "''DEBUG''" False,
       THEN conjunct2, THEN conjunct2, rule_format,
       of "str '' ''" "str ''TRUE''" "str '' ''"]
    by (simp add: str_def py_isspace_def)
  moreover have "get_bool [''DEBUG'' \<mapsto> str ''false''] ''DEBUG'' True =
      (py_lower (py_strip (str ''false'')) \<in> truthy)"
    using get_bool_present_ignores_default
      [of "[''DEBUG'' \<mapsto> str ''false'']" "''DEBUG''" True]
    by simp
  moreover have "get_bool Map.empty ''DEBUG'' True = True"
    using get_bool_present_ignores_default [of Map.empty "''DEBUG''" True] by simp
  ultimately show ?thesis using t f by simp
qed

text \<open>
  C9 as the specification words it fails: with the variable set to "false", a value that
  is not an accepted word, a field whose default is true is read as false.
\<close>

theorem get_bool_unrecognized_counterexample:
  "py_lower (py_strip (str ''false'')) \<notin> truthy \<and>
   get_bool [''DEBUG'' \<mapsto> str ''false''] ''DEBUG'' True \<noteq> True"
  by (simp add: get_bool_def py_lower_def py_strip_def py_isspace_def str_def truthy_def)

section \<open>Unfolding the tables\<close>

lemmas school_defs = school_def school_graded_def alice_def bob_def carol_def dave_def submission_of_def
  assignment_of_def lesson_of_def

lemmas session_get_defs = session_get_User_def session_get_Classroom_def session_get_Lesson_def
  session_get_Assignment_def session_get_Submission_def session_get_ClassroomEnrollment_def

section \<open>Looking rows up\<close>

lemma find_holds: "find P xs = Some x \<Longrightarrow> P x"
  by (auto simp: find_Some_iff)

lemma find_append_new:
  "find P xs = None \<Longrightarrow> P x \<Longrightarrow> find P (xs @ [x]) = Some x"
  by (induction xs) (auto split: if_splits)

lemma find_None_filter: "find P xs = None \<Longrightarrow> filter P xs = []"
  by (induction xs) (auto split: if_splits)

section \<open>Properties of the assignment handlers\<close>

text \<open>
  C3: for a caller with role TEACHER, \<open>get_assignment\<close> answers NotFound when no
  assignment has the id, NotFound when the assignment's lesson does not exist,
  Forbidden (not NotFound) when the lesson's classroom does not exist or is owned by
  somebody else, and the assignment otherwise.
\<close>

theorem get_assignment_errors:
  assumes teacher: "User_role current_user = TEACHER"
  shows
    "(session_get_Assignment db assignment_id = None \<longrightarrow>
        get_assignment db current_user assignment_id =
          Inl (HTTPException HTTP_404_NOT_FOUND ''Assignment not found'')) \<and>
     (\<forall>a. session_get_Assignment db assignment_id = Some a \<and>
          session_get_Lesson db (Assignment_lesson_id a) = None \<longrightarrow>
        get_assignment db current_user assignment_id =
          Inl (HTTPException HTTP_404_NOT_FOUND ''Lesson not found'')) \<and>
     (\<forall>a l. session_get_Assignment db assignment_id = Some a \<and>
          session_get_Lesson db (Assignment_lesson_id a) = Some l \<and>
          (session_get_Classroom db (Lesson_classroom_id l) = None \<or>
           (\<exists>c. session_get_Classroom db (Lesson_classroom_id l) = Some c \<and>
                Classroom_teacher_id c \<noteq> User_id current_user)) \<longrightarrow>
        get_assignment db current_user assignment_id =
          Inl (HTTPException HTTP_403_FORBIDDEN
                 ''Not authorized to manage assignments for this lesson'')) \<and>
     (\<forall>a l c. session_get_Assignment db assignment_id = Some a \<and>
          session_get_Lesson db (Assignment_lesson_id a) = Some l \<and>
          session_get_Classroom db (Lesson_classroom_id l) = Some c \<and>
          Classroom_teacher_id c = User_id current_user \<longrightarrow>
        get_assignment db current_user assignment_id = Inr a)"
  using teacher
  by (auto simp: get_assignment_def require_teacher_def ensure_lesson_owned_by_teacher_def)

theorem get_assignment_errors_witness:
  "User_role bob = TEACHER \<and>
   get_assignment school bob 99 = Inl (HTTPException HTTP_404_NOT_FOUND ''Assignment not found'') \<and>
   get_assignment school bob 31 = Inl (HTTPException HTTP_404_NOT_FOUND ''Lesson not found'') \<and>
   get_assignment school bob 30 =
     Inl (HTTPException HTTP_403_FORBIDDEN ''Not authorized to manage assignments for this lesson'') \<and>
   get_assignment school bob 32 =
     Inl (HTTPException HTTP_403_FORBIDDEN ''Not authorized to manage assignments for this lesson'') \<and>
   get_assignment school alice 30 = Inr (assignment_of 30 20)"
proof -
  have b: "User_role bob = TEACHER" by (simp add: bob_def)
  have a: "User_role alice = TEACHER" by (simp add: alice_def)
  have 1: "get_assignment school bob 99 = Inl (HTTPException HTTP_404_NOT_FOUND ''Assignment not found'')"
    using get_assignment_errors [OF b, of school 99]
    by (simp add: session_get_defs school_defs)
  have 2: "get_assignment school bob 31 = Inl (HTTPException HTTP_404_NOT_FOUND ''Lesson not found'')"
    using get_assignment_errors [OF b, of school 31]
    by (simp add: session_get_defs school_defs)
  have 3: "get_assignment school bob 30 =
     Inl (HTTPException HTTP_403_FORBIDDEN ''Not authorized to manage assignments for this lesson'')"
    using get_assignment_errors [OF b, of school 30]
    by (simp add: session_get_defs school_defs)
  have 4: "get_assignment school bob 32 =
     Inl (HTTPException HTTP_403_FORBIDDEN ''Not authorized to manage assignments for this lesson'')"
    using get_assignment_errors [OF b, of school 32]
    by (simp add: session_get_defs school_defs)
  have 5: "get_assignment school alice 30 = Inr (assignment_of 30 20)"
    using get_assignment_errors [OF a, of school 30]
    by (simp add: session_get_defs school_defs)
  from b 1 2 3 4 5 show ?thesis by simp
qed

section \<open>Properties of the grading handlers\<close>

lemma find_replace_row:
  assumes "Submission_id s' = k"
  shows "find (\<lambda>r. Submission_id r = j) (map (\<lambda>r. if Submission_id r = k then s' else r) rows) =
         map_option (\<lambda>r. if Submission_id r = k then s' else r) (find (\<lambda>r. Submission_id r = j) rows)"
  using assms by (induction rows) auto

lemma session_get_Submission_commit:
  "session_get_Submission (commit_Submission db s') j =
     map_option (\<lambda>r. if Submission_id r = Submission_id s' then s' else r)
       (session_get_Submission db j)"
  by (simp add: session_get_Submission_def commit_Submission_def find_replace_row)

lemma session_get_Submission_id:
  "session_get_Submission db k = Some s \<Longrightarrow> Submission_id s = k"
  unfolding session_get_Submission_def by (drule find_holds) simp

text \<open>What an authorized grading call returns and stores.\<close>

lemma grade_submission_authorized:
  assumes "User_role current_user = TEACHER"
    and "session_get_Submission db submission_id = Some s"
    and "session_get_Assignment db (Submission_assignment_id s) = Some a"
    and "session_get_Lesson db (Assignment_lesson_id a) = Some l"
    and "session_get_Classroom db (Lesson_classroom_id l) = Some c"
    and "Classroom_teacher_id c = User_id current_user"
  shows "grade_submission col db now current_user submission_id payload =
     Inr (s\<lparr>Submission_feedback :=
              (case GradeUpdate_feedback payload of Some v \<Rightarrow> Some v | None \<Rightarrow> Submission_feedback s),
            Submission_graded_at := Some now,
            Submission_graded_by := Some (User_id current_user),
            Submission_score :=
              (case GradeUpdate_score payload of Some v \<Rightarrow> col v | None \<Rightarrow> Submission_score s)\<rparr>,
          commit_Submission db
            (s\<lparr>Submission_feedback :=
              (case GradeUpdate_feedback payload of Some v \<Rightarrow> Some v | None \<Rightarrow> Submission_feedback s),
            Submission_graded_at := Some now,
            Submission_graded_by := Some (User_id current_user),
            Submission_score :=
              (case GradeUpdate_score payload of Some v \<Rightarrow> col v | None \<Rightarrow> Submission_score s)\<rparr>))"
  using assms
  by (cases "GradeUpdate_score payload")
     (simp_all add: grade_submission_def require_teacher_def stored_Submission_def Let_def
        split: option.splits)

text \<open>
  C4: an authorized grading call on an existing submission succeeds; the stored score
  becomes the request's score (as the score column keeps it) when the request has one and
  is otherwise kept, likewise the feedback; \<open>graded_at\<close> and \<open>graded_by\<close> become
  the current time and the teacher's id in every case; the other fields of the submission,
  the other submissions and the other tables are unchanged. \<open>update_grade\<close> does the
  same.
\<close>

theorem grade_submission_frame:
  assumes "User_role current_user = TEACHER"
    and "session_get_Submission db submission_id = Some s"
    and "session_get_Assignment db (Submission_assignment_id s) = Some a"
    and "session_get_Lesson db (Assignment_lesson_id a) = Some l"
    and "session_get_Classroom db (Lesson_classroom_id l) = Some c"
    and "Classroom_teacher_id c = User_id current_user"
  shows "\<exists>s' db'. grade_submission col db now current_user submission_id payload = Inr (s', db') \<and>
     update_grade col db now current_user submission_id payload = Inr (s', db') \<and>
     session_get_Submission db' submission_id = Some s' \<and>
     Submission_score s' =
       (case GradeUpdate_score payload of Some v \<Rightarrow> col v | None \<Rightarrow> Submission_score s) \<and>
     (\<forall>v. GradeUpdate_score payload = Some v \<and> col v = Some v \<longrightarrow>
        Submission_score s' = Some v) \<and>
     Submission_feedback s' =
       (case GradeUpdate_feedback payload of Some v \<Rightarrow> Some v | None \<Rightarrow> Submission_feedback s) \<and>
     Submission_graded_at s' = Some now \<and>
     Submission_graded_by s' = Some (User_id current_user) \<and>
     Submission_id s' = Submission_id s \<and>
     Submission_assignment_id s' = Submission_assignment_id s \<and>
     Submission_student_id s' = Submission_student_id s \<and>
     Submission_submitted_at s' = Submission_submitted_at s \<and>
     Submission_content s' = Submission_content s \<and>
     Submission_file_path s' = Submission_file_path s \<and>
     (\<forall>k. k \<noteq> submission_id \<longrightarrow> session_get_Submission db' k = session_get_Submission db k) \<and>
     users db' = users db \<and> classrooms db' = classrooms db \<and>
     enrollments db' = enrollments db \<and> lessons db' = lessons db \<and>
     assignments db' = assignments db"
proof -
  let ?s' = "s\<lparr>Submission_feedback :=
              (case GradeUpdate_feedback payload of Some v \<Rightarrow> Some v | None \<Rightarrow> Submission_feedback s),
            Submission_graded_at := Some now,
            Submission_graded_by := Some (User_id current_user),
            Submission_score :=
              (case GradeUpdate_score payload of Some v \<Rightarrow> col v | None \<Rightarrow> Submission_score s)\<rparr>"
  have run: "grade_submission col db now current_user submission_id payload =
      Inr (?s', commit_Submission db ?s')"
    by (rule grade_submission_authorized [OF assms])
  have key: "Submission_id s = submission_id"
    using assms(2) by (rule session_get_Submission_id)
  have stored: "session_get_Submission (commit_Submission db ?s') submission_id = Some ?s'"
    using assms(2) key by (simp add: session_get_Submission_commit)
  have others: "\<forall>k. k \<noteq> submission_id \<longrightarrow>
      session_get_Submission (commit_Submission db ?s') k = session_get_Submission db k"
  proof (intro allI impI)
    fix k assume "k \<noteq> submission_id"
    then show "session_get_Submission (commit_Submission db ?s') k = session_get_Submission db k"
      using key session_get_Submission_id [of db k]
      by (cases "session_get_Submission db k") (auto simp: session_get_Submission_commit)
  qed
  have tables: "users (commit_Submission db ?s') = users db"
    "classrooms (commit_Submission db ?s') = classrooms db"
    "enrollments (commit_Submission db ?s') = enrollments db"
    "lessons (commit_Submission db ?s') = lessons db"
    "assignments (commit_Submission db ?s') = assignments db"
    by (simp_all add: commit_Submission_def)
  show ?thesis
    using run stored others tables
    by (intro exI [of _ ?s'] exI [of _ "commit_Submission db ?s'"]) (simp add: update_grade_def)
qed

theorem grade_submission_frame_witness:
  "User_role alice = TEACHER \<and>
   (\<exists>s. session_get_Submission school_graded 40 = Some s \<and> Submission_score s = Some (Finite 70) \<and>
        Submission_graded_at s = Some 2000) \<and>
   (\<exists>s' db'. grade_submission nan_as_null school_graded 5000 alice 40
                \<lparr>GradeUpdate_score = None, GradeUpdate_feedback = Some ''see me''\<rparr> = Inr (s', db') \<and>
      session_get_Submission db' 40 = Some s' \<and>
      Submission_score s' = Some (Finite 70) \<and> Submission_feedback s' = Some ''see me'' \<and>
      Submission_graded_at s' = Some 5000 \<and> Submission_graded_by s' = Some 1 \<and>
      Submission_content s' = Some ''answer'')"
proof -
  let ?s = "(submission_of 40 30 3)\<lparr>Submission_score := Some (Finite 70),
           Submission_feedback := Some ''good'', Submission_graded_at := Some 2000,
           Submission_graded_by := Some 1\<rparr>"
  have h1: "User_role alice = TEACHER" by (simp add: alice_def)
  have h2: "session_get_Submission school_graded 40 = Some ?s"
    by (simp add: session_get_defs school_defs)
  have h3: "session_get_Assignment school_graded (Submission_assignment_id ?s) =
      Some (assignment_of 30 20)"
    by (simp add: session_get_defs school_defs)
  have h4: "session_get_Lesson school_graded (Assignment_lesson_id (assignment_of 30 20)) =
      Some (lesson_of 20 10)"
    by (simp add: session_get_defs school_defs)
  have h5: "session_get_Classroom school_graded (Lesson_classroom_id (lesson_of 20 10)) =
      Some \<lparr>Classroom_id = 10, Classroom_name = ''History'',
                      Classroom_description = None, Classroom_teacher_id = 1\<rparr>"
    by (simp add: session_get_defs school_defs)
  have h6: "Classroom_teacher_id \<lparr>Classroom_id = 10, Classroom_name = ''History'',
                      Classroom_description = None, Classroom_teacher_id = 1\<rparr> = User_id alice"
    by (simp add: alice_def)
  have s: "Submission_score ?s = Some (Finite 70)" "Submission_graded_at ?s = Some 2000"
    "Submission_content ?s = Some ''answer''" "User_id alice = 1"
    by (simp_all add: submission_of_def alice_def)
  from grade_submission_frame [OF h1 h2 h3 h4 h5 h6, of nan_as_null 5000
      "\<lparr>GradeUpdate_score = None, GradeUpdate_feedback = Some ''see me''\<rparr>"]
  obtain s' db' where
    "grade_submission nan_as_null school_graded 5000 alice 40
        \<lparr>GradeUpdate_score = None, GradeUpdate_feedback = Some ''see me''\<rparr> = Inr (s', db')"
    "session_get_Submission db' 40 = Some s'"
    "Submission_score s' = Some (Finite 70)" "Submission_feedback s' = Some ''see me''"
    "Submission_graded_at s' = Some 5000" "Submission_graded_by s' = Some 1"
    "Submission_content s' = Some ''answer''"
    using s by auto
  with h1 h2 s show ?thesis by auto
qed

text \<open>
  C5 (as the code has it): for a caller with role TEACHER, grading answers NotFound when
  the submission or its assignment does not exist, and Forbidden when the assignment's
  lesson does not exist, the lesson's classroom does not exist, or the classroom is owned
  by somebody else; otherwise it succeeds. \<open>update_grade\<close> answers the same.
\<close>

theorem grade_submission_errors:
  assumes teacher: "User_role current_user = TEACHER"
  shows
    "update_grade col db now current_user submission_id payload =
       grade_submission col db now current_user submission_id payload \<and>
     (session_get_Submission db submission_id = None \<longrightarrow>
        grade_submission col db now current_user submission_id payload =
          Inl (HTTPException HTTP_404_NOT_FOUND ''Submission not found'')) \<and>
     (\<forall>s. session_get_Submission db submission_id = Some s \<and>
          session_get_Assignment db (Submission_assignment_id s) = None \<longrightarrow>
        grade_submission col db now current_user submission_id payload =
          Inl (HTTPException HTTP_404_NOT_FOUND ''Assignment not found'')) \<and>
     (\<forall>s a. session_get_Submission db submission_id = Some s \<and>
          session_get_Assignment db (Submission_assignment_id s) = Some a \<and>
          (session_get_Lesson db (Assignment_lesson_id a) = None \<or>
           (\<exists>l. session_get_Lesson db (Assignment_lesson_id a) = Some l \<and>
              (session_get_Classroom db (Lesson_classroom_id l) = None \<or>
               (\<exists>c. session_get_Classroom db (Lesson_classroom_id l) = Some c \<and>
                    Classroom_teacher_id c \<noteq> User_id current_user)))) \<longrightarrow>
        grade_submission col db now current_user submission_id payload =
          Inl (HTTPException HTTP_403_FORBIDDEN ''Not authorized to grade this submission'')) \<and>
     (\<forall>s a l c. session_get_Submission db submission_id = Some s \<and>
          session_get_Assignment db (Submission_assignment_id s) = Some a \<and>
          session_get_Lesson db (Assignment_lesson_id a) = Some l \<and>
          session_get_Classroom db (Lesson_classroom_id l) = Some c \<and>
          Classroom_teacher_id c = User_id current_user \<longrightarrow>
        (\<exists>r. grade_submission col db now current_user submission_id payload = Inr r))"
  using teacher
  by (auto simp: update_grade_def grade_submission_def require_teacher_def Let_def
      split: option.splits)

theorem grade_submission_errors_witness:
  "User_role alice = TEACHER \<and>
   grade_submission nan_as_null school 5000 alice 99 \<lparr>GradeUpdate_score = Some (Finite 1), GradeUpdate_feedback = None\<rparr> =
     Inl (HTTPException HTTP_404_NOT_FOUND ''Submission not found'') \<and>
   grade_submission nan_as_null school 5000 alice 42 \<lparr>GradeUpdate_score = Some (Finite 1), GradeUpdate_feedback = None\<rparr> =
     Inl (HTTPException HTTP_403_FORBIDDEN ''Not authorized to grade this submission'') \<and>
   grade_submission nan_as_null school 5000 alice 43 \<lparr>GradeUpdate_score = Some (Finite 1), GradeUpdate_feedback = None\<rparr> =
     Inl (HTTPException HTTP_403_FORBIDDEN ''Not authorized to grade this submission'') \<and>
   grade_submission nan_as_null school 5000 bob 40 \<lparr>GradeUpdate_score = Some (Finite 1), GradeUpdate_feedback = None\<rparr> =
     Inl (HTTPException HTTP_403_FORBIDDEN ''Not authorized to grade this submission'') \<and>
   (\<exists>r. update_grade nan_as_null school 5000 alice 40 \<lparr>GradeUpdate_score = Some (Finite 1), GradeUpdate_feedback = None\<rparr> =
     Inr r)"
proof -
  let ?p = "\<lparr>GradeUpdate_score = Some (Finite 1), GradeUpdate_feedback = None\<rparr>"
  have a: "User_role alice = TEACHER" "User_id alice = 1" by (simp_all add: alice_def)
  have b: "User_role bob = TEACHER" "User_id bob = 2" by (simp_all add: bob_def)
  have 1: "grade_submission nan_as_null school 5000 alice 99 ?p =
     Inl (HTTPException HTTP_404_NOT_FOUND ''Submission not found'')"
    using grade_submission_errors [OF a(1), of nan_as_null school 5000 99 ?p]
    by (simp add: session_get_defs school_defs)
  have 2: "grade_submission nan_as_null school 5000 alice 42 ?p =
     Inl (HTTPException HTTP_403_FORBIDDEN ''Not authorized to grade this submission'')"
    using grade_submission_errors [OF a(1), of nan_as_null school 5000 42 ?p]
    by (simp add: session_get_defs school_defs)
  have 3: "grade_submission nan_as_null school 5000 alice 43 ?p =
     Inl (HTTPException HTTP_403_FORBIDDEN ''Not authorized to grade this submission'')"
    using grade_submission_errors [OF a(1), of nan_as_null school 5000 43 ?p]
    by (simp add: session_get_defs school_defs)
  have 4: "grade_submission nan_as_null school 5000 bob 40 ?p =
     Inl (HTTPException HTTP_403_FORBIDDEN ''Not authorized to grade this submission'')"
    using grade_submission_errors [OF b(1), of nan_as_null school 5000 40 ?p] b(2)
    by (simp add: session_get_defs school_defs)
  have 5: "\<exists>r. update_grade nan_as_null school 5000 alice 40 ?p = Inr r"
    using grade_submission_errors [OF a(1), of nan_as_null school 5000 40 ?p] a(2)
    by (simp add: session_get_defs school_defs)
  from a(1) 1 2 3 4 5 show ?thesis by simp
qed

text \<open>
  C5 as the specification words it fails: submission 42 and its assignment 31 exist, the
  assignment's lesson 77 does not, and teacher 1 is answered Forbidden, not NotFound, by
  both operations.
\<close>

theorem grade_submission_missing_lesson_counterexample:
  "User_role alice = TEACHER \<and>
   session_get_Submission school 42 = Some (submission_of 42 31 3) \<and>
   session_get_Assignment school 31 = Some (assignment_of 31 77) \<and>
   session_get_Lesson school 77 = None \<and>
   grade_submission nan_as_null school 5000 alice 42 \<lparr>GradeUpdate_score = Some (Finite 1), GradeUpdate_feedback = None\<rparr> =
     Inl (HTTPException HTTP_403_FORBIDDEN ''Not authorized to grade this submission'') \<and>
   update_grade nan_as_null school 5000 alice 42 \<lparr>GradeUpdate_score = Some (Finite 1), GradeUpdate_feedback = None\<rparr> =
     Inl (HTTPException HTTP_403_FORBIDDEN ''Not authorized to grade this submission'')"
  by (simp add: update_grade_def grade_submission_def require_teacher_def session_get_defs
      school_defs)




section \<open>Properties of enrollment\<close>

lemma distinct_filter_eq_one:
  "distinct xs \<Longrightarrow> x \<in> set xs \<Longrightarrow> length (filter (\<lambda>y. y = x) xs) = 1"
proof (induction xs)
  case Nil
  then show ?case by simp
next
  case (Cons a xs)
  show ?case
  proof (cases "a = x")
    case True
    with Cons.prems have "x \<notin> set xs" by simp
    then have "filter (\<lambda>y. y = x) xs = []" by (auto simp: filter_empty_conv)
    with True show ?thesis by simp
  next
    case False
    with Cons show ?thesis by simp
  qed
qed

lemma distinct_filter_one:
  assumes "distinct xs" and "find P xs = Some x" and "\<And>y. P y \<Longrightarrow> y = x"
  shows "length (filter P xs) = 1"
proof -
  from assms(2) have x: "x \<in> set xs" "P x" by (auto simp: find_Some_iff)
  have "filter P xs = filter (\<lambda>y. y = x) xs"
  proof (rule filter_cong [OF refl])
    fix y show "P y = (y = x)" using assms(3) [of y] x(2) by blast
  qed
  with assms(1) x(1) show ?thesis by (simp add: distinct_filter_eq_one)
qed

text \<open>
  C8: for a classroom owned by the calling teacher and an existing user with role STUDENT,
  in a table that has no row twice (the pair is its primary key), enrolling succeeds;
  enrolling once more succeeds too and leaves the database exactly as the first call left
  it; the table then has exactly one row for the pair, and the first call changed no other
  table.
\<close>

theorem enroll_student_idempotent:
  assumes "User_role current_user = TEACHER"
    and "session_get_Classroom db classroom_id = Some c"
    and "Classroom_teacher_id c = User_id current_user"
    and "session_get_User db student_id = Some student"
    and "User_role student = STUDENT"
    and "distinct (enrollments db)"
  shows "\<exists>db1. enroll_student db current_user classroom_id student_id = Inr db1 \<and>
     enroll_student db1 current_user classroom_id student_id = Inr db1 \<and>
     length (filter (\<lambda>r. ClassroomEnrollment_classroom_id r = classroom_id \<and>
                         ClassroomEnrollment_student_id r = student_id) (enrollments db1)) = 1 \<and>
     distinct (enrollments db1) \<and>
     users db1 = users db \<and> classrooms db1 = classrooms db \<and> lessons db1 = lessons db \<and>
     assignments db1 = assignments db \<and> submissions db1 = submissions db"
proof -
  let ?P = "\<lambda>r. ClassroomEnrollment_classroom_id r = classroom_id \<and>
                 ClassroomEnrollment_student_id r = student_id"
  let ?row = "\<lparr>ClassroomEnrollment_classroom_id = classroom_id,
               ClassroomEnrollment_student_id = student_id\<rparr>"
  show ?thesis
  proof (cases "session_get_ClassroomEnrollment db classroom_id student_id")
    case None
    let ?db1 = "db\<lparr>enrollments := enrollments db @ [?row]\<rparr>"
    have first: "enroll_student db current_user classroom_id student_id = Inr ?db1"
      using assms None by (simp add: enroll_student_def require_teacher_def)
    from None have none: "find ?P (enrollments db) = None"
      by (simp add: session_get_ClassroomEnrollment_def)
    then have got: "session_get_ClassroomEnrollment ?db1 classroom_id student_id = Some ?row"
      by (simp add: session_get_ClassroomEnrollment_def find_append_new)
    have "session_get_Classroom ?db1 classroom_id = Some c"
      "session_get_User ?db1 student_id = Some student"
      using assms by (simp_all add: session_get_Classroom_def session_get_User_def)
    with assms got have second: "enroll_student ?db1 current_user classroom_id student_id = Inr ?db1"
      by (simp add: enroll_student_def require_teacher_def)
    have "?row \<notin> set (enrollments db)"
    proof
      assume "?row \<in> set (enrollments db)"
      then have "\<exists>x. x \<in> set (enrollments db) \<and> ?P x"
        by (intro exI [of _ ?row]) simp
      with none show False by (simp add: find_None_iff)
    qed
    with assms(6) have d: "distinct (enrollments ?db1)" by simp
    from none have one: "length (filter ?P (enrollments ?db1)) = 1"
      by (simp add: find_None_filter)
    from first second one d show ?thesis by simp
  next
    case (Some existing)
    have first: "enroll_student db current_user classroom_id student_id = Inr db"
      using assms Some by (simp add: enroll_student_def require_teacher_def)
    from Some have "find ?P (enrollments db) = Some existing"
      by (simp add: session_get_ClassroomEnrollment_def)
    moreover have "?P existing"
      using calculation by (rule find_holds)
    then have "\<And>y. ?P y \<Longrightarrow> y = existing" by simp
    ultimately have one: "length (filter ?P (enrollments db)) = 1"
      using assms(6) by (intro distinct_filter_one)
    from first one assms(6) show ?thesis by simp
  qed
qed

theorem enroll_student_idempotent_witness:
  "distinct (enrollments school) \<and>
   (\<exists>db1. enroll_student school alice 10 3 = Inr db1 \<and>
      enroll_student db1 alice 10 3 = Inr db1 \<and>
      length (filter (\<lambda>r. ClassroomEnrollment_classroom_id r = 10 \<and>
                         ClassroomEnrollment_student_id r = 3) (enrollments db1)) = 1)"
proof -
  have h1: "User_role alice = TEACHER" by (simp add: alice_def)
  have h2: "session_get_Classroom school 10 = Some \<lparr>Classroom_id = 10, Classroom_name = ''History'',
                      Classroom_description = None, Classroom_teacher_id = 1\<rparr>"
    by (simp add: session_get_defs school_defs)
  have h3: "Classroom_teacher_id \<lparr>Classroom_id = 10, Classroom_name = ''History'',
                      Classroom_description = None, Classroom_teacher_id = 1\<rparr> = User_id alice"
    by (simp add: alice_def)
  have h4: "session_get_User school 3 = Some carol"
    by (simp add: session_get_defs school_defs)
  have h5: "User_role carol = STUDENT" by (simp add: carol_def)
  have h6: "distinct (enrollments school)" by (simp add: school_def)
  from enroll_student_idempotent [OF h1 h2 h3 h4 h5 h6] h6 show ?thesis by blast
qed

section \<open>Properties of the submission listing\<close>

text \<open>
  C2: listing the submissions of an existing assignment. A STUDENT gets exactly the
  submissions of the assignment that are their own, with no enrollment check; the teacher
  who owns the classroom of the assignment's lesson gets all submissions of the
  assignment; another TEACHER gets NotFound when the lesson is missing and Forbidden
  when the classroom is missing or owned by somebody else.
\<close>

theorem list_submissions_for_assignment_visibility:
  assumes "session_get_Assignment db assignment_id = Some a"
  shows
    "(User_role current_user = STUDENT \<longrightarrow>
        (\<exists>rs. list_submissions_for_assignment db current_user assignment_id = Inr rs \<and>
           (\<forall>r \<in> set rs. Submission_student_id r = User_id current_user \<and>
                          Submission_assignment_id r = assignment_id) \<and>
           (\<forall>r \<in> set (submissions db).
              Submission_assignment_id r = assignment_id \<and>
              Submission_student_id r = User_id current_user \<longrightarrow> r \<in> set rs) \<and>
           rs = filter (\<lambda>r. Submission_assignment_id r = assignment_id \<and>
                              Submission_student_id r = User_id current_user)
                  (submissions db))) \<and>
     (User_role current_user = TEACHER \<longrightarrow>
        (\<forall>l c. session_get_Lesson db (Assignment_lesson_id a) = Some l \<and>
           session_get_Classroom db (Lesson_classroom_id l) = Some c \<and>
           Classroom_teacher_id c = User_id current_user \<longrightarrow>
           list_submissions_for_assignment db current_user assignment_id =
             Inr (filter (\<lambda>r. Submission_assignment_id r = assignment_id) (submissions db))) \<and>
        (session_get_Lesson db (Assignment_lesson_id a) = None \<longrightarrow>
           list_submissions_for_assignment db current_user assignment_id =
             Inl (HTTPException HTTP_404_NOT_FOUND ''Lesson not found'')) \<and>
        (\<forall>l. session_get_Lesson db (Assignment_lesson_id a) = Some l \<and>
           (session_get_Classroom db (Lesson_classroom_id l) = None \<or>
            (\<exists>c. session_get_Classroom db (Lesson_classroom_id l) = Some c \<and>
                 Classroom_teacher_id c \<noteq> User_id current_user)) \<longrightarrow>
           list_submissions_for_assignment db current_user assignment_id =
             Inl (HTTPException HTTP_403_FORBIDDEN
                    ''Not authorized to view submissions for this assignment'')))"
  using assms
  by (auto simp: list_submissions_for_assignment_def split: option.splits)

theorem list_submissions_for_assignment_visibility_witness:
  "session_get_Assignment school 30 = Some (assignment_of 30 20) \<and>
   session_get_ClassroomEnrollment school 10 3 = None \<and>
   list_submissions_for_assignment school carol 30 = Inr [submission_of 40 30 3] \<and>
   list_submissions_for_assignment school alice 30 =
     Inr [submission_of 40 30 3, submission_of 41 30 4] \<and>
   list_submissions_for_assignment school bob 30 =
     Inl (HTTPException HTTP_403_FORBIDDEN
            ''Not authorized to view submissions for this assignment'')"
proof -
  have h: "session_get_Assignment school 30 = Some (assignment_of 30 20)"
    by (simp add: session_get_defs school_defs)
  have e: "session_get_ClassroomEnrollment school 10 3 = None"
    by (simp add: session_get_defs school_defs)
  have l: "session_get_Lesson school (Assignment_lesson_id (assignment_of 30 20)) =
      Some (lesson_of 20 10)"
    by (simp add: session_get_defs school_defs)
  have c: "session_get_Classroom school (Lesson_classroom_id (lesson_of 20 10)) =
      Some \<lparr>Classroom_id = 10, Classroom_name = ''History'',
                      Classroom_description = None, Classroom_teacher_id = 1\<rparr>"
    by (simp add: session_get_defs school_defs)
  have u: "User_role alice = TEACHER" "User_id alice = 1" "User_role bob = TEACHER"
    "User_id bob = 2" "User_role carol = STUDENT" "User_id carol = 3"
    by (simp_all add: alice_def bob_def carol_def)
  have f: "filter (\<lambda>r. Submission_assignment_id r = 30) (submissions school) =
      [submission_of 40 30 3, submission_of 41 30 4]"
    by (simp add: school_defs)
  have 2: "list_submissions_for_assignment school alice 30 =
     Inr [submission_of 40 30 3, submission_of 41 30 4]"
    using list_submissions_for_assignment_visibility [OF h, of alice] l c u f by simp
  have 3: "list_submissions_for_assignment school bob 30 =
     Inl (HTTPException HTTP_403_FORBIDDEN
            ''Not authorized to view submissions for this assignment'')"
    using list_submissions_for_assignment_visibility [OF h, of bob] l c u by simp
  have g: "filter (\<lambda>r. Submission_assignment_id r = 30 \<and> Submission_student_id r = 3)
      (submissions school) = [submission_of 40 30 3]"
    by (simp add: school_defs)
  have 1: "list_submissions_for_assignment school carol 30 = Inr [submission_of 40 30 3]"
    using list_submissions_for_assignment_visibility [OF h, of carol] u g by auto
  from h e 1 2 3 show ?thesis by simp
qed

section \<open>Properties of the tokens\<close>

lemma create_access_token_exp:
  "jwt_claims (create_access_token settings now data expires_minutes) ''exp'' =
     Some (ClaimInt (now + 60 * (case expires_minutes of
                                   None \<Rightarrow> ACCESS_TOKEN_EXPIRE_MINUTES settings
                                 | Some m \<Rightarrow> if m = 0 then ACCESS_TOKEN_EXPIRE_MINUTES settings
                                            else m)))"
  by (simp add: create_access_token_def jwt_encode_def Let_def)

text \<open>A negative override does what the specification says: the token is expired at once.\<close>

lemma create_access_token_negative_expired:
  assumes "m < 0" and "now \<le> now'"
  shows "jwt_claims (create_access_token settings now data (Some m)) ''exp'' =
           Some (ClaimInt (now + 60 * m)) \<and>
         decode_access_token settings now' (create_access_token settings now data (Some m)) =
           Inl ExpiredSignatureError"
  using assms
  by (simp add: decode_access_token_def jwt_decode_def create_access_token_def jwt_encode_def
      Let_def)

text \<open>
  C6, at the override 0: the override is taken for absent. The token is the one a call
  without override makes, its \<open>exp\<close> claim is the creation time plus the configured
  default (not plus 0), and with the default settings decoding it succeeds at creation
  time and for the next hour.
\<close>

theorem create_access_token_zero_override:
  "create_access_token settings now data (Some 0) = create_access_token settings now data None \<and>
   jwt_claims (create_access_token settings now data (Some 0)) ''exp'' =
     Some (ClaimInt (now + 60 * ACCESS_TOKEN_EXPIRE_MINUTES settings)) \<and>
   decode_access_token default_settings now
       (create_access_token default_settings now data (Some 0)) =
     Inr (data(''exp'' \<mapsto> ClaimInt (now + 3600))) \<and>
   decode_access_token default_settings (now + 3600)
       (create_access_token default_settings now data (Some 0)) =
     Inr (data(''exp'' \<mapsto> ClaimInt (now + 3600)))"
  by (simp add: decode_access_token_def jwt_decode_def create_access_token_def jwt_encode_def
      default_settings_def Let_def)

theorem create_access_token_zero_override_witness:
  "jwt_claims (create_access_token default_settings 1000 [''sub'' \<mapsto> ClaimStr ''1''] (Some 0))
      ''exp'' = Some (ClaimInt 4600) \<and>
   decode_access_token default_settings 1000
       (create_access_token default_settings 1000 [''sub'' \<mapsto> ClaimStr ''1''] (Some 0)) =
     Inr [''sub'' \<mapsto> ClaimStr ''1'', ''exp'' \<mapsto> ClaimInt 4600]"
proof -
  note run = create_access_token_zero_override
    [of default_settings 1000 "[''sub'' \<mapsto> ClaimStr ''1'']", THEN conjunct2]
  from run [THEN conjunct1] run [THEN conjunct2, THEN conjunct1] show ?thesis
    by (simp add: default_settings_def)
qed

section \<open>Properties of the password functions\<close>

lemma utf8_encode_ascii: "\<forall>c \<in> set s. c < 128 \<Longrightarrow> utf8_encode s = Some s"
  by (induction s) (simp_all add: utf8_encode_cp_def)

text \<open>Every code point takes at least one byte.\<close>

lemma utf8_encode_cp_nonempty: "utf8_encode_cp c = Some bs \<Longrightarrow> 1 \<le> length bs"
  by (auto simp: utf8_encode_cp_def split: if_splits)

lemma utf8_encode_length: "utf8_encode s = Some bs \<Longrightarrow> length s \<le> length bs"
proof (induction s arbitrary: bs)
  case Nil
  then show ?case by simp
next
  case (Cons c cs)
  then obtain b rest where b: "utf8_encode_cp c = Some b" and rest: "utf8_encode cs = Some rest"
    and bs: "bs = b @ rest"
    by (auto split: option.splits)
  from Cons.IH [OF rest] utf8_encode_cp_nonempty [OF b] bs show ?case by simp
qed

lemma ideal_lib_hash:
  assumes "ideal_lib lib" and "accepted_secret q"
  shows "\<exists>h. pwd_context_hash lib salt q = Some h"
proof -
  from assms(1) have "\<forall>salt q. accepted_secret q \<longrightarrow> pwd_context_hash lib salt q \<noteq> None"
    unfolding ideal_lib_def by (rule conjunct1)
  with assms(2) have "pwd_context_hash lib salt q \<noteq> None" by blast
  then show ?thesis by simp
qed

lemma ideal_lib_verify:
  assumes "ideal_lib lib" and "pwd_context_hash lib salt q = Some h"
  shows "pwd_context_verify lib p h = (if accepted_secret p then Some (p = q) else None)"
proof -
  from assms(1) have "\<forall>salt p q h. pwd_context_hash lib salt q = Some h \<longrightarrow>
        pwd_context_verify lib p h = (if accepted_secret p then Some (p = q) else None)"
    unfolding ideal_lib_def by blast
  with assms(2) show ?thesis by blast
qed

lemma accepted_secret_digest: "ideal_lib lib \<Longrightarrow> accepted_secret (sha256_hexdigest lib bs)"
proof -
  assume "ideal_lib lib"
  then have "length (sha256_hexdigest lib bs) = 64"
    and "\<forall>c \<in> set (sha256_hexdigest lib bs). c < 128"
    by (simp_all add: ideal_lib_def)
  then show ?thesis by (simp add: accepted_secret_def utf8_encode_ascii)
qed

text \<open>A password of more than 72 bytes is not its own digest: the digest encodes to 64 bytes.\<close>

lemma long_password_not_digest:
  assumes "ideal_lib lib" and "utf8_encode P = Some bs" and "72 < length bs"
  shows "P \<noteq> sha256_hexdigest lib bs'"
proof
  assume eq: "P = sha256_hexdigest lib bs'"
  from assms(1) have "length (sha256_hexdigest lib bs') = 64"
    and "\<forall>c \<in> set (sha256_hexdigest lib bs'). c < 128"
    by (simp_all add: ideal_lib_def)
  with eq have "utf8_encode P = Some P" and "length P = 64"
    by (simp_all add: utf8_encode_ascii)
  with assms(2,3) show False by simp
qed

text \<open>Up to 72 bytes the password itself is hashed, and it verifies.\<close>

lemma short_password_verifies:
  assumes "ideal_lib lib" and "utf8_encode P = Some bs" and "length bs \<le> 72"
  shows "\<exists>h. get_password_hash lib salt P = Some h \<and> verify_password lib P h = Some True"
proof -
  from assms(2,3) have "length P \<le> 72" using utf8_encode_length [of P bs] by simp
  with assms(2) have acc: "accepted_secret P" by (simp add: accepted_secret_def)
  with assms(1) obtain h where h: "pwd_context_hash lib salt P = Some h"
    using ideal_lib_hash [of lib P salt] by blast
  with assms(1) acc have "pwd_context_verify lib P h = Some True"
    by (simp add: ideal_lib_verify [of lib salt P h])
  with h assms(2,3) show ?thesis
    by (simp add: get_password_hash_def verify_password_def)
qed

text \<open>
  Beyond 72 bytes the digest is hashed, and the password does not verify against that
  hash: the library answers no, or raises when the password has more than 4096 characters.
\<close>

lemma long_password_never_verifies:
  assumes "ideal_lib lib" and "utf8_encode P = Some bs" and "72 < length bs"
  shows "\<exists>h. pwd_context_hash lib salt (sha256_hexdigest lib bs) = Some h \<and>
     get_password_hash lib salt P = Some h \<and>
     verify_password lib P h = (if length P \<le> 4096 then Some False else None)"
proof -
  from assms(1) obtain h where h: "pwd_context_hash lib salt (sha256_hexdigest lib bs) = Some h"
    using ideal_lib_hash [OF assms(1) accepted_secret_digest [OF assms(1)], of salt bs] by blast
  from assms have ne: "P \<noteq> sha256_hexdigest lib bs" by (rule long_password_not_digest)
  from assms(2) have acc: "accepted_secret P \<longleftrightarrow> length P \<le> 4096"
    by (simp add: accepted_secret_def)
  from assms(1) h have "pwd_context_verify lib P h =
      (if accepted_secret P then Some (P = sha256_hexdigest lib bs) else None)"
    by (rule ideal_lib_verify)
  with ne acc have "verify_password lib P h = (if length P \<le> 4096 then Some False else None)"
    by (simp add: verify_password_def)
  with h assms(2,3) show ?thesis by (simp add: get_password_hash_def)
qed

text \<open>
  C1, for a password of more than 72 UTF-8 bytes, with libraries that behave ideally:
  registration succeeds and stores the hash of the digest; the password does not verify
  against that hash, and logging in with the same email and password is answered 401
  (500 if the password has more than 4096 characters, which registration validation
  excludes).
\<close>

theorem register_then_login_long_password:
  assumes "ideal_lib lib" and "utf8_encode P = Some bs" and "72 < length bs"
    and "find (\<lambda>r. User_email r = email) (users db) = None"
  shows "\<exists>h u db'. get_password_hash lib salt P = Some h \<and>
     verify_password lib P h \<noteq> Some True \<and>
     verify_password lib P h = (if length P \<le> 4096 then Some False else None) \<and>
     register_user lib salt new_id db
       \<lparr>UserCreate_email = email, UserCreate_full_name = full_name, UserCreate_password = P,
        UserCreate_role = r\<rparr> = Inr (u, db') \<and>
     UserRead_id u = new_id \<and>
     login lib settings now db' email P =
       Inl (if length P \<le> 4096
            then HTTPException HTTP_401_UNAUTHORIZED ''Incorrect username or password''
            else internal_server_error)"
proof -
  from long_password_never_verifies [OF assms(1-3), of salt]
  obtain h where v: "get_password_hash lib salt P = Some h"
    "verify_password lib P h = (if length P \<le> 4096 then Some False else None)"
    by blast
  let ?user = "\<lparr>User_id = new_id, User_email = email, User_full_name = full_name,
                 User_role = r, User_hashed_password = h\<rparr>"
  have reg: "register_user lib salt new_id db
       \<lparr>UserCreate_email = email, UserCreate_full_name = full_name, UserCreate_password = P,
        UserCreate_role = r\<rparr> =
     Inr (\<lparr>UserRead_id = new_id, UserRead_email = email, UserRead_full_name = full_name,
           UserRead_role = r\<rparr>, db\<lparr>users := users db @ [?user]\<rparr>)"
    using assms(4) v(1) by (simp add: register_user_def)
  have "find (\<lambda>r. User_email r = email) (users db @ [?user]) = Some ?user"
    using assms(4) by (simp add: find_append_new)
  then have "login lib settings now (db\<lparr>users := users db @ [?user]\<rparr>) email P =
       Inl (if length P \<le> 4096
            then HTTPException HTTP_401_UNAUTHORIZED ''Incorrect username or password''
            else internal_server_error)"
    using v(2) by (simp add: login_def)
  with v reg show ?thesis by simp
qed

theorem register_then_login_long_password_witness:
  "ideal_lib plain_lib \<and> password_length_ok (replicate 73 97) \<and>
   utf8_encode (replicate 73 97) = Some (replicate 73 97) \<and>
   (\<exists>u db'. register_user plain_lib [] 5 school
        \<lparr>UserCreate_email = ''erin@school.org'', UserCreate_full_name = ''Erin'',
         UserCreate_password = replicate 73 97, UserCreate_role = TEACHER\<rparr> = Inr (u, db') \<and>
      UserRead_id u = 5 \<and>
      login plain_lib default_settings 1000 db' ''erin@school.org'' (replicate 73 97) =
        Inl (HTTPException HTTP_401_UNAUTHORIZED ''Incorrect username or password''))"
proof -
  have h1: "ideal_lib plain_lib"
    by (auto simp: ideal_lib_def plain_lib_def split: if_splits)
  have h2: "utf8_encode (replicate 73 97) = Some (replicate 73 97)"
    by (rule utf8_encode_ascii) simp
  have h3: "72 < length (replicate 73 (97::nat))" by simp
  have h4: "find (\<lambda>r. User_email r = ''erin@school.org'') (users school) = None"
    by (simp add: school_defs)
  have ok: "password_length_ok (replicate 73 97)" by (simp add: password_length_ok_def)
  from register_then_login_long_password [OF h1 h2 h3 h4, of "[]" 5 "''Erin''" TEACHER
      default_settings 1000]
  have "\<exists>u db'. register_user plain_lib [] 5 school
        \<lparr>UserCreate_email = ''erin@school.org'', UserCreate_full_name = ''Erin'',
         UserCreate_password = replicate 73 97, UserCreate_role = TEACHER\<rparr> = Inr (u, db') \<and>
      UserRead_id u = 5 \<and>
      login plain_lib default_settings 1000 db' ''erin@school.org'' (replicate 73 97) =
        Inl (HTTPException HTTP_401_UNAUTHORIZED ''Incorrect username or password'')"
    by auto
  with h1 ok h2 show ?thesis by simp
qed

text \<open>
  The part of C1 that holds: with a password of at most 72 UTF-8 bytes, registering and
  then logging in succeeds, and the token decodes to the new user's id and role.
\<close>

lemma register_then_login_short_password:
  assumes "ideal_lib lib" and "utf8_encode P = Some bs" and "length bs \<le> 72"
    and "find (\<lambda>r. User_email r = email) (users db) = None"
    and "0 \<le> ACCESS_TOKEN_EXPIRE_MINUTES settings"
  shows "\<exists>u db' t cs. register_user lib salt new_id db
       \<lparr>UserCreate_email = email, UserCreate_full_name = full_name, UserCreate_password = P,
        UserCreate_role = r\<rparr> = Inr (u, db') \<and>
     UserRead_id u = new_id \<and>
     login lib settings now db' email P = Inr t \<and>
     Token_user_id t = new_id \<and> Token_role t = r \<and> Token_token_type t = ''bearer'' \<and>
     decode_access_token settings now (Token_access_token t) = Inr cs \<and>
     cs ''sub'' = Some (ClaimStr (str_of_int new_id)) \<and>
     cs ''role'' = Some (ClaimStr (UserRole_value r))"
proof -
  from short_password_verifies [OF assms(1-3), of salt]
  obtain h where v: "get_password_hash lib salt P = Some h" "verify_password lib P h = Some True"
    by blast
  let ?user = "\<lparr>User_id = new_id, User_email = email, User_full_name = full_name,
                 User_role = r, User_hashed_password = h\<rparr>"
  have reg: "register_user lib salt new_id db
       \<lparr>UserCreate_email = email, UserCreate_full_name = full_name, UserCreate_password = P,
        UserCreate_role = r\<rparr> =
     Inr (\<lparr>UserRead_id = new_id, UserRead_email = email, UserRead_full_name = full_name,
           UserRead_role = r\<rparr>, db\<lparr>users := users db @ [?user]\<rparr>)"
    using assms(4) v(1) by (simp add: register_user_def)
  have found: "find (\<lambda>r. User_email r = email) (users db @ [?user]) = Some ?user"
    using assms(4) by (simp add: find_append_new)
  show ?thesis
    using reg found v(2) assms(5)
    by (simp add: login_def Let_def decode_access_token_def jwt_decode_def
        create_access_token_def jwt_encode_def)
qed

section \<open>Properties of the two logins\<close>

text \<open>
  C7 (as the code has it). The form login answers by lookup and verification alone: 401
  with one message when no user has the email or the password does not verify, 500 when
  the verification raises, a token otherwise, whatever the shape of email and password.
  The JSON login of a validated body answers as the form login does for the same email
  and password, with the same token payload on success and the same status on failure,
  except that its 401 carries another message. The JSON route answers 422, before any
  lookup, for a body whose email is rejected or whose password is not 8 to 128 characters
  long, and otherwise logs in with the email in its normal form.
\<close>

theorem login_json_against_login:
  "login_json lib settings now db payload =
     (case login lib settings now db (LoginRequest_email payload)
             (LoginRequest_password payload) of
        Inr t \<Rightarrow> Inr t
      | Inl e \<Rightarrow>
          if e = HTTPException HTTP_401_UNAUTHORIZED ''Incorrect username or password''
          then Inl (HTTPException HTTP_401_UNAUTHORIZED ''Incorrect email or password'')
          else Inl e) \<and>
   (login lib settings now db username password =
        Inl (HTTPException HTTP_401_UNAUTHORIZED ''Incorrect username or password'') \<longleftrightarrow>
      (case find (\<lambda>r. User_email r = username) (users db) of
         None \<Rightarrow> True
       | Some user \<Rightarrow> verify_password lib password (User_hashed_password user) = Some False)) \<and>
   (login lib settings now db username password = Inl internal_server_error \<longleftrightarrow>
      (case find (\<lambda>r. User_email r = username) (users db) of
         None \<Rightarrow> False
       | Some user \<Rightarrow> verify_password lib password (User_hashed_password user) = None)) \<and>
   ((\<exists>t. login lib settings now db username password = Inr t) \<longleftrightarrow>
      (case find (\<lambda>r. User_email r = username) (users db) of
         None \<Rightarrow> False
       | Some user \<Rightarrow> verify_password lib password (User_hashed_password user) = Some True)) \<and>
   (\<forall>e. login lib settings now db username password = Inl e \<longrightarrow>
      e = HTTPException HTTP_401_UNAUTHORIZED ''Incorrect username or password'' \<or>
      e = internal_server_error) \<and>
   post_login_json email_str lib settings now db email password =
     (case email_str email of
        None \<Rightarrow> Inl (HTTPException HTTP_422_UNPROCESSABLE_ENTITY ''Unprocessable Entity'')
      | Some normalized \<Rightarrow>
          if password_length_ok password
          then login_json lib settings now db
                 \<lparr>LoginRequest_email = normalized, LoginRequest_password = password\<rparr>
          else Inl (HTTPException HTTP_422_UNPROCESSABLE_ENTITY ''Unprocessable Entity''))"
  by (auto simp: login_def login_json_def post_login_json_def validate_LoginRequest_def Let_def
      internal_server_error_def split: option.splits if_splits)

theorem login_json_against_login_witness:
  "password_length_ok (str ''correct horse'') \<and>
   (\<exists>t. login plain_lib default_settings 1000 school ''alice@school.org'' (str ''correct horse'') =
          Inr t \<and>
        post_login_json Some plain_lib default_settings 1000 school ''alice@school.org''
          (str ''correct horse'') = Inr t) \<and>
   login plain_lib default_settings 1000 school ''alice@school.org'' (str ''wrong horse'') =
     Inl (HTTPException HTTP_401_UNAUTHORIZED ''Incorrect username or password'') \<and>
   post_login_json Some plain_lib default_settings 1000 school ''alice@school.org''
       (str ''wrong horse'') =
     Inl (HTTPException HTTP_401_UNAUTHORIZED ''Incorrect email or password'') \<and>
   login plain_lib default_settings 1000 school ''bob@school.org'' (str ''correct horse'') =
     Inl internal_server_error \<and>
   post_login_json Some plain_lib default_settings 1000 school ''bob@school.org''
       (str ''correct horse'') = Inl internal_server_error \<and>
   post_login_json Some plain_lib default_settings 1000 school ''alice@school.org'' (str ''horse'') =
     Inl (HTTPException HTTP_422_UNPROCESSABLE_ENTITY ''Unprocessable Entity'')"
proof -
  note run = login_json_against_login [of plain_lib default_settings 1000 school]
  have ok: "password_length_ok (str ''correct horse'')" "password_length_ok (str ''wrong horse'')"
    "\<not> password_length_ok (str ''horse'')"
    by (simp_all add: password_length_ok_def str_def)
  have a: "find (\<lambda>r. User_email r = ''alice@school.org'') (users school) = Some alice"
    "find (\<lambda>r. User_email r = ''bob@school.org'') (users school) = Some bob"
    by (simp_all add: school_defs)
  have v: "verify_password plain_lib (str ''correct horse'') (User_hashed_password alice) =
      Some True"
    "verify_password plain_lib (str ''wrong horse'') (User_hashed_password alice) = Some False"
    "verify_password plain_lib (str ''correct horse'') (User_hashed_password bob) = None"
    by (simp_all add: verify_password_def plain_lib_def accepted_secret_def utf8_encode_cp_def
        alice_def bob_def str_def)
  let ?form = "\<lambda>username password.
      login plain_lib default_settings 1000 school username password"
  let ?json = "\<lambda>email password.
      post_login_json Some plain_lib default_settings 1000 school email password"
  have route: "\<And>email password. password_length_ok password \<Longrightarrow>
      ?json email password =
        (case ?form email password of
           Inr t \<Rightarrow> Inr t
         | Inl e \<Rightarrow>
             if e = HTTPException HTTP_401_UNAUTHORIZED ''Incorrect username or password''
             then Inl (HTTPException HTTP_401_UNAUTHORIZED ''Incorrect email or password'')
             else Inl e)"
  proof -
    fix email password assume len: "password_length_ok password"
    have "?json email password =
        login_json plain_lib default_settings 1000 school
          \<lparr>LoginRequest_email = email, LoginRequest_password = password\<rparr>"
      using run [where email_str = Some and email = email and password = password] len
      by simp
    also have "\<dots> = (case ?form email password of
           Inr t \<Rightarrow> Inr t
         | Inl e \<Rightarrow>
             if e = HTTPException HTTP_401_UNAUTHORIZED ''Incorrect username or password''
             then Inl (HTTPException HTTP_401_UNAUTHORIZED ''Incorrect email or password'')
             else Inl e)"
      using run [where payload = "\<lparr>LoginRequest_email = email, LoginRequest_password = password\<rparr>",
          THEN conjunct1]
      by simp
    finally show "?json email password =
        (case ?form email password of
           Inr t \<Rightarrow> Inr t
         | Inl e \<Rightarrow>
             if e = HTTPException HTTP_401_UNAUTHORIZED ''Incorrect username or password''
             then Inl (HTTPException HTTP_401_UNAUTHORIZED ''Incorrect email or password'')
             else Inl e)" .
  qed
  obtain t where t: "?form ''alice@school.org'' (str ''correct horse'') = Inr t"
    using run [where username = "''alice@school.org''" and password = "str ''correct horse''",
        THEN conjunct2, THEN conjunct2, THEN conjunct2, THEN conjunct1] a(1) v(1)
    by auto
  have 1: "?json ''alice@school.org'' (str ''correct horse'') = Inr t"
    using route [OF ok(1), of "''alice@school.org''"] t by simp
  have 2: "?form ''alice@school.org'' (str ''wrong horse'') =
      Inl (HTTPException HTTP_401_UNAUTHORIZED ''Incorrect username or password'')"
    using run [where username = "''alice@school.org''" and password = "str ''wrong horse''",
        THEN conjunct2, THEN conjunct1] a(1) v(2)
    by simp
  have 3: "?json ''alice@school.org'' (str ''wrong horse'') =
      Inl (HTTPException HTTP_401_UNAUTHORIZED ''Incorrect email or password'')"
    using route [OF ok(2), of "''alice@school.org''"] 2 by simp
  have 4: "?form ''bob@school.org'' (str ''correct horse'') = Inl internal_server_error"
    using run [where username = "''bob@school.org''" and password = "str ''correct horse''",
        THEN conjunct2, THEN conjunct2, THEN conjunct1] a(2) v(3)
    by simp
  have 5: "?json ''bob@school.org'' (str ''correct horse'') = Inl internal_server_error"
    using route [OF ok(1), of "''bob@school.org''"] 4
    by (simp add: internal_server_error_def)
  have 6: "?json ''alice@school.org'' (str ''horse'') =
      Inl (HTTPException HTTP_422_UNPROCESSABLE_ENTITY ''Unprocessable Entity'')"
    using run [where email_str = Some and email = "''alice@school.org''"
          and password = "str ''horse''"] ok(3)
    by simp
  from ok(1) t 1 2 3 4 5 6 show ?thesis by blast
qed

text \<open>
  C7 as the specification words it fails: for the email of teacher 1 and a password of
  five characters that is not hers, the form login answers 401 and the JSON login 422.
\<close>

theorem login_json_validation_counterexample:
  "login plain_lib default_settings 1000 school ''alice@school.org'' (str ''horse'') =
     Inl (HTTPException HTTP_401_UNAUTHORIZED ''Incorrect username or password'') \<and>
   post_login_json Some plain_lib default_settings 1000 school ''alice@school.org'' (str ''horse'') =
     Inl (HTTPException HTTP_422_UNPROCESSABLE_ENTITY ''Unprocessable Entity'')"
  by (simp add: login_def post_login_json_def validate_LoginRequest_def verify_password_def
      plain_lib_def accepted_secret_def utf8_encode_cp_def password_length_ok_def str_def
      school_defs)

text \<open>
  The messages differ too: for an email nobody registered and a password of valid length,
  both logins answer 401, each with its own text.
\<close>

lemma login_json_message_differs:
  "password_length_ok (str ''password1'') \<and>
   login plain_lib default_settings 1000 school ''nobody@school.org'' (str ''password1'') =
     Inl (HTTPException HTTP_401_UNAUTHORIZED ''Incorrect username or password'') \<and>
   post_login_json Some plain_lib default_settings 1000 school ''nobody@school.org''
       (str ''password1'') =
     Inl (HTTPException HTTP_401_UNAUTHORIZED ''Incorrect email or password'')"
  by (simp add: login_def login_json_def post_login_json_def validate_LoginRequest_def
      password_length_ok_def str_def school_defs)

text \<open>
  Only the form login takes a password of more than 4096 characters as far as the
  verification, which raises: it answers 500 where the JSON login answers 422.
\<close>

lemma login_overlong_password:
  "login plain_lib default_settings 1000 school ''alice@school.org'' (replicate 4097 97) =
     Inl internal_server_error \<and>
   post_login_json Some plain_lib default_settings 1000 school ''alice@school.org''
       (replicate 4097 97) =
     Inl (HTTPException HTTP_422_UNPROCESSABLE_ENTITY ''Unprocessable Entity'')"
  by (simp add: login_def post_login_json_def validate_LoginRequest_def verify_password_def
      plain_lib_def accepted_secret_def password_length_ok_def school_defs)

end
